theory Spec2Isabelle
  imports Complex_Main
begin

section \<open>Shapes of \<^verbatim>\<open>chernov.arseniy/P5/main.cpp\<close>\<close>

text \<open>
  The program keeps every coordinate, side and radius in a C++ \<^verbatim>\<open>double\<close> and rounds
  the result of every arithmetic operation. The definitions below follow the source line
  by line and read \<^verbatim>\<open>double\<close> as \<^typ>\<open>real\<close>, with exact arithmetic. That reading is
  not the program wherever a rounded result matters, so the theorems of this development
  are confined to what rounding to nearest cannot change:
  \<^item> which call throws \<^verbatim>\<open>std::invalid_argument\<close>, decided by a comparison of an input with
    zero or by a vertex count;
  \<^item> the sign of a side, of a radius and of an area (a rounded product has the sign of the
    exact product, or is zero), and the order of a minimum and a maximum (\<^verbatim>\<open>std::min\<close>
    and \<^verbatim>\<open>std::max\<close> return one of their arguments);
  \<^item> which fields a frame rectangle is computed from.
  No general theorem here equates a result of the program with the value of an arithmetic
  expression of its inputs: such an equation holds of the exact reading only. The
  concrete instances use small integers and halves, on which double arithmetic is exact.
  Values that are not numbers (an infinity after an overflow, NaN) are outside the model. The one
  place where the source makes one from ordinary input, the division by a zero signed
  area in \<^verbatim>\<open>Polygon::getCentroid\<close>, is the fault \<open>DivisionByZero\<close> of the model (the
  model tests the exact signed area, the program divides by the rounded one; the two are
  the same on the instances used below); a read
  past the end of an array (undefined behaviour in C++) is the fault \<open>OutOfBounds\<close>. Only
  \<open>InvalidArgument\<close> is a C++ exception (\<^verbatim>\<open>std::invalid_argument\<close>, with its message).

  An array handed over as a pointer and an element count is a list, the count being its
  length. The slots of a \<^verbatim>\<open>Shape **\<close> array are taken to point to distinct objects, as
  \<^verbatim>\<open>main\<close> builds them, so the array is a list of shape values.
\<close>

subsection \<open>Value types and faults\<close>

record point_t =
  px :: real
  py :: real

record rectangle_t =
  width :: real
  height :: real
  pos :: point_t

datatype fault = InvalidArgument string | DivisionByZero | OutOfBounds

subsection \<open>Rectangle\<close>

record Rectangle =
  side_x :: real
  side_y :: real
  rect_center :: point_t



definition Rectangle_getFrameRect :: "Rectangle \<Rightarrow> rectangle_t" where
  "Rectangle_getFrameRect r = \<lparr>width = side_x r, height = side_y r, pos = rect_center r\<rparr>"

definition Rectangle_move :: "Rectangle \<Rightarrow> point_t \<Rightarrow> Rectangle" where
  "Rectangle_move r p = r\<lparr>rect_center := p\<rparr>"

definition Rectangle_move_by :: "Rectangle \<Rightarrow> real \<Rightarrow> real \<Rightarrow> Rectangle" where
  "Rectangle_move_by r dx dy =
     Rectangle_move r \<lparr>px = px (rect_center r) + dx, py = py (rect_center r) + dy\<rparr>"

definition Rectangle_scale :: "Rectangle \<Rightarrow> real \<Rightarrow> Rectangle" where
  "Rectangle_scale r k = r\<lparr>side_x := side_x r * k, side_y := side_y r * k\<rparr>"

subsection \<open>Bubble\<close>

record Bubble =
  radius :: real
  bubble_center :: point_t
  anchor :: point_t

text \<open>
  The constructor makes three checks, in this order. The first one,
  \<^verbatim>\<open>(o.x - a.x) * (o.x - a.x) + (o.y - a.y) * (o.y - a.y) > r * r\<close>, compares two results
  of double arithmetic, each operation rounded: its outcome is not the comparison of the
  exact values, and the model takes it as the argument \<open>outside\<close>. The two other checks
  compare inputs and are exact. (The parameter \<^verbatim>\<open>o\<close> of the source is \<open>c\<close> here,
  \<open>o\<close> being function composition in HOL.)
\<close>

definition Bubble_ctor :: "bool \<Rightarrow> real \<Rightarrow> point_t \<Rightarrow> point_t \<Rightarrow> fault + Bubble" where
  "Bubble_ctor outside r c a =
     (if outside
      then Inl (InvalidArgument ''the anchor must be inside the circle'')
      else if px c = px a \<and> py c = py a
      then Inl (InvalidArgument ''the anchor must not be equal to the center'')
      else if r \<le> 0
      then Inl (InvalidArgument ''the radius must be greater than 0'')
      else Inr \<lparr>radius = r, bubble_center = c, anchor = a\<rparr>)"


definition Bubble_getFrameRect :: "Bubble \<Rightarrow> rectangle_t" where
  "Bubble_getFrameRect b =
     (let size = 2 * radius b in \<lparr>width = size, height = size, pos = bubble_center b\<rparr>)"

definition Bubble_move_by :: "Bubble \<Rightarrow> real \<Rightarrow> real \<Rightarrow> Bubble" where
  "Bubble_move_by b dx dy =
     b\<lparr>anchor := \<lparr>px = px (anchor b) + dx, py = py (anchor b) + dy\<rparr>,
       bubble_center := \<lparr>px = px (bubble_center b) + dx, py = py (bubble_center b) + dy\<rparr>\<rparr>"

definition Bubble_move :: "Bubble \<Rightarrow> point_t \<Rightarrow> Bubble" where
  "Bubble_move b p =
     (let dx = px p - px (anchor b); dy = py p - py (anchor b) in Bubble_move_by b dx dy)"

definition Bubble_scale :: "Bubble \<Rightarrow> real \<Rightarrow> Bubble" where
  "Bubble_scale b k =
     (let r = radius b * k;
          dx = px (bubble_center b) - px (anchor b);
          dy = py (bubble_center b) - py (anchor b)
      in b\<lparr>radius := r,
            bubble_center := \<lparr>px = px (anchor b) + k * dx, py = py (anchor b) + k * dy\<rparr>\<rparr>)"

subsection \<open>Polygon\<close>

text \<open>
  The vertex buffer \<^verbatim>\<open>verts\<close> with its length \<^verbatim>\<open>count\<close> is the list \<open>verts\<close>. Every
  \<^verbatim>\<open>for (size_t i = 0; i < count; ++i)\<close> loop is a \<open>foldl\<close> of its body over the indices
  \<open>[0..<count]\<close>; the state of the fold is what the body assigns to.
\<close>

record Polygon =
  verts :: "point_t list"
  poly_center :: point_t

definition Polygon_getSignedArea :: "Polygon \<Rightarrow> real" where
  "Polygon_getSignedArea p =
     (let n = length (verts p);
          area = foldl (\<lambda>area i.
                   area + px (verts p ! i) * py (verts p ! ((i + 1) mod n))
                        - py (verts p ! i) * px (verts p ! ((i + 1) mod n)))
                   0 [0..<n]
      in area * 0.5)"


text \<open>
  \<^verbatim>\<open>getFrameRect\<close> reads \<^verbatim>\<open>verts[0]\<close> before its loop: on an empty buffer that read is
  out of bounds.
\<close>

definition frame_step :: "point_t list \<Rightarrow> real \<times> real \<times> real \<times> real \<Rightarrow> nat \<Rightarrow> real \<times> real \<times> real \<times> real" where
  "frame_step vs acc i =
     (case acc of (min_x, min_y, max_x, max_y) \<Rightarrow>
        (min min_x (px (vs ! i)), min min_y (py (vs ! i)),
         max max_x (px (vs ! i)), max max_y (py (vs ! i))))"

definition box_of :: "real \<times> real \<times> real \<times> real \<Rightarrow> rectangle_t" where
  "box_of acc =
     (case acc of (min_x, min_y, max_x, max_y) \<Rightarrow>
        (let w = max_x - min_x; h = max_y - min_y
         in \<lparr>width = w, height = h, pos = \<lparr>px = min_x + w / 2, py = min_y + h / 2\<rparr>\<rparr>))"

definition Polygon_getFrameRect :: "Polygon \<Rightarrow> fault + rectangle_t" where
  "Polygon_getFrameRect p =
     (case verts p of
        [] \<Rightarrow> Inl OutOfBounds
      | v0 # _ \<Rightarrow>
          Inr (box_of (foldl (frame_step (verts p)) (px v0, py v0, px v0, py v0)
                         [0..<length (verts p)])))"

definition Polygon_move_by :: "Polygon \<Rightarrow> real \<Rightarrow> real \<Rightarrow> Polygon" where
  "Polygon_move_by p dx dy =
     (let vs = foldl (\<lambda>vs i. vs[i := \<lparr>px = px (vs ! i) + dx, py = py (vs ! i) + dy\<rparr>])
                 (verts p) [0..<length (verts p)]
      in p\<lparr>verts := vs,
            poly_center := \<lparr>px = px (poly_center p) + dx, py = py (poly_center p) + dy\<rparr>\<rparr>)"

definition Polygon_move :: "Polygon \<Rightarrow> point_t \<Rightarrow> Polygon" where
  "Polygon_move p q =
     (let dx = px q - px (poly_center p); dy = py q - py (poly_center p)
      in Polygon_move_by p dx dy)"

definition Polygon_scale :: "Polygon \<Rightarrow> real \<Rightarrow> Polygon" where
  "Polygon_scale p k =
     (let c = poly_center p;
          vs = foldl (\<lambda>vs i.
                 (let dx = k * (px (vs ! i) - px c); dy = k * (py (vs ! i) - py c)
                  in vs[i := \<lparr>px = px c + dx, py = py c + dy\<rparr>]))
                 (verts p) [0..<length (verts p)]
      in p\<lparr>verts := vs\<rparr>)"

text \<open>
  \<^verbatim>\<open>getCentroid\<close> divides both sums by \<^verbatim>\<open>6 * signed_area\<close> without a test. Over the
  reals the quotient by zero does not exist (IEEE arithmetic gives an infinity or NaN):
  the model reports \<open>DivisionByZero\<close> there.
\<close>

definition centroid_step :: "point_t list \<Rightarrow> real \<times> real \<Rightarrow> nat \<Rightarrow> real \<times> real" where
  "centroid_step vs acc i =
     (case acc of (cx, cy) \<Rightarrow>
        (let x0 = px (vs ! i); y0 = py (vs ! i);
             x1 = px (vs ! ((i + 1) mod length vs)); y1 = py (vs ! ((i + 1) mod length vs));
             cross = x0 * y1 - x1 * y0
         in (cx + (x0 + x1) * cross, cy + (y0 + y1) * cross)))"

definition Polygon_getCentroid :: "Polygon \<Rightarrow> fault + point_t" where
  "Polygon_getCentroid p =
     (case foldl (centroid_step (verts p)) (0, 0) [0..<length (verts p)] of (cx, cy) \<Rightarrow>
        (let signed_area = Polygon_getSignedArea p
         in if 6 * signed_area = 0 then Inl DivisionByZero
            else Inr \<lparr>px = cx / (6 * signed_area), py = cy / (6 * signed_area)\<rparr>))"

text \<open>
  The constructor copies \<^verbatim>\<open>points[0..size)\<close> into a fresh buffer, with center \<open>(0, 0)\<close>,
  rejects fewer than three vertices and then caches the centroid.
\<close>

definition Polygon_ctor :: "point_t list \<Rightarrow> fault + Polygon" where
  "Polygon_ctor points =
     (let p = \<lparr>verts = points, poly_center = \<lparr>px = 0, py = 0\<rparr>\<rparr>
      in if length points < 3
         then Inl (InvalidArgument ''the count must not be less than 3'')
         else (case Polygon_getCentroid p of
                 Inl f \<Rightarrow> Inl f
               | Inr c \<Rightarrow> Inr (p\<lparr>poly_center := c\<rparr>)))"


subsection \<open>The Shape interface\<close>

datatype Shape = RectangleShape Rectangle | PolygonShape Polygon | BubbleShape Bubble


fun getFrameRect :: "Shape \<Rightarrow> fault + rectangle_t" where
  "getFrameRect (RectangleShape r) = Inr (Rectangle_getFrameRect r)"
| "getFrameRect (PolygonShape p) = Polygon_getFrameRect p"
| "getFrameRect (BubbleShape b) = Inr (Bubble_getFrameRect b)"

fun move :: "Shape \<Rightarrow> point_t \<Rightarrow> Shape" where
  "move (RectangleShape r) q = RectangleShape (Rectangle_move r q)"
| "move (PolygonShape p) q = PolygonShape (Polygon_move p q)"
| "move (BubbleShape b) q = BubbleShape (Bubble_move b q)"

fun move_by :: "Shape \<Rightarrow> real \<Rightarrow> real \<Rightarrow> Shape" where
  "move_by (RectangleShape r) dx dy = RectangleShape (Rectangle_move_by r dx dy)"
| "move_by (PolygonShape p) dx dy = PolygonShape (Polygon_move_by p dx dy)"
| "move_by (BubbleShape b) dx dy = BubbleShape (Bubble_move_by b dx dy)"

fun scale :: "Shape \<Rightarrow> real \<Rightarrow> Shape" where
  "scale (RectangleShape r) k = RectangleShape (Rectangle_scale r k)"
| "scale (PolygonShape p) k = PolygonShape (Polygon_scale p k)"
| "scale (BubbleShape b) k = BubbleShape (Bubble_scale b k)"



subsection \<open>Aggregate operations\<close>

text \<open>
  The body of the loop of \<^verbatim>\<open>scaleByPoint\<close> on one shape: the fault, if any, and the
  shape as the body leaves it.
\<close>

definition scaleByPoint_body :: "real \<Rightarrow> point_t \<Rightarrow> Shape \<Rightarrow> fault option \<times> Shape" where
  "scaleByPoint_body k p shape =
     (case getFrameRect shape of
        Inl f \<Rightarrow> (Some f, shape)
      | Inr frame1 \<Rightarrow>
          (let first_pos = pos frame1; shape1 = move shape p
           in case getFrameRect shape1 of
                Inl f \<Rightarrow> (Some f, shape1)
              | Inr frame2 \<Rightarrow>
                  (let second_pos = pos frame2;
                       dx = k * (px first_pos - px second_pos);
                       dy = k * (py first_pos - py second_pos)
                   in (None, scale (move_by shape1 dx dy) k))))"

definition scaleByPoint_step :: "real \<Rightarrow> point_t \<Rightarrow> fault option \<times> Shape list \<Rightarrow> nat \<Rightarrow> fault option \<times> Shape list" where
  "scaleByPoint_step k p st i =
     (case st of
        (Some f, shapes) \<Rightarrow> (Some f, shapes)
      | (None, shapes) \<Rightarrow>
          (case scaleByPoint_body k p (shapes ! i) of (r, shape') \<Rightarrow> (r, shapes[i := shape'])))"

text \<open>
  \<^verbatim>\<open>scaleByPoint\<close> returns nothing and mutates the shapes in place, so the model returns
  how the call ends (\<open>None\<close>: it returns; \<open>Some f\<close>: it stops with the fault \<open>f\<close>) and
  the shapes as they stand then.
\<close>

definition scaleByPoint :: "Shape list \<Rightarrow> real \<Rightarrow> point_t \<Rightarrow> fault option \<times> Shape list" where
  "scaleByPoint shapes k p =
     (if k \<le> 0 then (Some (InvalidArgument ''k must be positive''), shapes)
      else foldl (scaleByPoint_step k p) (None, shapes) [0..<length shapes])"

subsection \<open>Notions used in the statements\<close>





text \<open>
  What each constructor guarantees of the shape it returns, by comparisons that no
  rounding affects: positive sides (\<^verbatim>\<open>side_x <= 0 || side_y <= 0\<close> throws), at least three
  vertices (\<^verbatim>\<open>count < 3\<close> throws), a positive radius (\<^verbatim>\<open>r <= 0\<close> throws).
\<close>

fun well_formed :: "Shape \<Rightarrow> bool" where
  "well_formed (RectangleShape r) = (0 < side_x r \<and> 0 < side_y r)"
| "well_formed (PolygonShape p) = (3 \<le> length (verts p))"
| "well_formed (BubbleShape b) = (0 < radius b)"



section \<open>Auxiliary facts\<close>

subsection \<open>Index loops\<close>



subsection \<open>The frame of a polygon in closed form\<close>









subsection \<open>The loop of scaleByPoint\<close>

lemma getFrameRect_fault: "getFrameRect s = Inl f \<Longrightarrow> f = OutOfBounds"
  by (cases s) (auto simp: Polygon_getFrameRect_def split: list.splits)

lemma scaleByPoint_body_fault:
  "fst (scaleByPoint_body k p s) = Some f \<Longrightarrow> f = OutOfBounds"
  by (auto simp: scaleByPoint_body_def Let_def split: sum.splits dest: getFrameRect_fault)

lemma scaleByPoint_step_fault:
  assumes "fst st \<noteq> Some (InvalidArgument msg)"
  shows "fst (scaleByPoint_step k p st i) \<noteq> Some (InvalidArgument msg)"
proof (cases st)
  case (Pair r shapes)
  show ?thesis
  proof (cases r)
    case None
    obtain r' s' where b: "scaleByPoint_body k p (shapes ! i) = (r', s')"
      by (cases "scaleByPoint_body k p (shapes ! i)")
    have "r' \<noteq> Some (InvalidArgument msg)"
      using scaleByPoint_body_fault [of k p "shapes ! i" "InvalidArgument msg"] b by auto
    with Pair None b show ?thesis by (simp add: scaleByPoint_step_def)
  next
    case (Some f)
    with Pair assms show ?thesis by (simp add: scaleByPoint_step_def)
  qed
qed

lemma scaleByPoint_loop_fault:
  "fst st \<noteq> Some (InvalidArgument msg) \<Longrightarrow>
   fst (foldl (scaleByPoint_step k p) st is) \<noteq> Some (InvalidArgument msg)"
  by (induction "is" arbitrary: st) (simp_all add: scaleByPoint_step_fault)

subsection \<open>What the constructors return\<close>



lemma Bubble_ctor_well_formed:
  "Bubble_ctor outside r c a = Inr b \<Longrightarrow> well_formed (BubbleShape b)"
  by (auto simp: Bubble_ctor_def split: if_splits)

subsection \<open>What the mutations keep\<close>














section \<open>The claims\<close>

subsection \<open>Construction of a polygon\<close>

text \<open>
  Claim C9. The constructor of a polygon throws \<^verbatim>\<open>std::invalid_argument\<close> exactly when
  it is given fewer than three vertices. Three or more vertices of signed area zero are
  not rejected: the constructor goes on to \<^verbatim>\<open>getCentroid\<close>, which divides by
  \<^verbatim>\<open>6 * signed_area\<close>, zero, with no test before the division; the collinear points
  \<open>(0,0), (1,0), (2,0)\<close> are such an input. With a signed area other than zero the
  polygon is constructed.
\<close>

theorem Polygon_ctor_checks:
  "((\<exists>msg. Polygon_ctor points = Inl (InvalidArgument msg)) \<longleftrightarrow> length points < 3)
   \<and> (3 \<le> length points
        \<and> Polygon_getSignedArea \<lparr>verts = points, poly_center = \<lparr>px = 0, py = 0\<rparr>\<rparr> = 0
       \<longrightarrow> Polygon_ctor points = Inl DivisionByZero)
   \<and> (3 \<le> length points
        \<and> Polygon_getSignedArea \<lparr>verts = points, poly_center = \<lparr>px = 0, py = 0\<rparr>\<rparr> \<noteq> 0
       \<longrightarrow> (\<exists>p. Polygon_ctor points = Inr p))
   \<and> 3 \<le> length [\<lparr>px = 0, py = 0\<rparr>, \<lparr>px = 1, py = 0\<rparr>, \<lparr>px = 2, py = 0\<rparr>]
   \<and> Polygon_getSignedArea
         \<lparr>verts = [\<lparr>px = 0, py = 0\<rparr>, \<lparr>px = 1, py = 0\<rparr>, \<lparr>px = 2, py = 0\<rparr>],
          poly_center = \<lparr>px = 0, py = 0\<rparr>\<rparr> = 0
   \<and> Polygon_ctor [\<lparr>px = 0, py = 0\<rparr>, \<lparr>px = 1, py = 0\<rparr>, \<lparr>px = 2, py = 0\<rparr>] = Inl DivisionByZero"
proof -
  have 1: "(\<exists>msg. Polygon_ctor points = Inl (InvalidArgument msg)) \<longleftrightarrow> length points < 3"
    by (auto simp: Polygon_ctor_def Polygon_getCentroid_def Let_def
        split: sum.splits prod.splits if_splits)
  have 2: "Polygon_ctor points = Inl DivisionByZero"
    if "3 \<le> length points"
      "Polygon_getSignedArea \<lparr>verts = points, poly_center = \<lparr>px = 0, py = 0\<rparr>\<rparr> = 0"
    using that by (simp add: Polygon_ctor_def Polygon_getCentroid_def Let_def split: prod.splits)
  have 3: "\<exists>p. Polygon_ctor points = Inr p"
    if "3 \<le> length points"
      "Polygon_getSignedArea \<lparr>verts = points, poly_center = \<lparr>px = 0, py = 0\<rparr>\<rparr> \<noteq> 0"
    using that by (simp add: Polygon_ctor_def Polygon_getCentroid_def Let_def split: prod.splits)
  have 4: "Polygon_getSignedArea
         \<lparr>verts = [\<lparr>px = 0, py = 0\<rparr>, \<lparr>px = 1, py = 0\<rparr>, \<lparr>px = 2, py = 0\<rparr>],
          poly_center = \<lparr>px = 0, py = 0\<rparr>\<rparr> = 0"
    by (simp add: Polygon_getSignedArea_def upt_rec)
  have 5: "Polygon_ctor [\<lparr>px = 0, py = 0\<rparr>, \<lparr>px = 1, py = 0\<rparr>, \<lparr>px = 2, py = 0\<rparr>] = Inl DivisionByZero"
    by (simp add: Polygon_ctor_def Polygon_getCentroid_def Polygon_getSignedArea_def upt_rec
        split: prod.splits)
  from 1 2 3 4 5 show ?thesis by simp
qed

theorem Polygon_ctor_checks_witness:
  "Polygon_ctor [\<lparr>px = 0, py = 0\<rparr>, \<lparr>px = 1, py = 1\<rparr>]
     = Inl (InvalidArgument ''the count must not be less than 3'')
   \<and> Polygon_ctor [\<lparr>px = 0, py = 0\<rparr>, \<lparr>px = 1, py = 1\<rparr>, \<lparr>px = 2, py = 2\<rparr>] = Inl DivisionByZero
   \<and> (\<exists>p. Polygon_ctor [\<lparr>px = 0, py = 0\<rparr>, \<lparr>px = 1, py = 0\<rparr>, \<lparr>px = 0, py = 1\<rparr>] = Inr p)"
proof -
  have a: "Polygon_getSignedArea
         \<lparr>verts = [\<lparr>px = 0, py = 0\<rparr>, \<lparr>px = 1, py = 1\<rparr>, \<lparr>px = 2, py = 2\<rparr>],
          poly_center = \<lparr>px = 0, py = 0\<rparr>\<rparr> = 0"
    by (simp add: Polygon_getSignedArea_def upt_rec)
  have b: "Polygon_getSignedArea
         \<lparr>verts = [\<lparr>px = 0, py = 0\<rparr>, \<lparr>px = 1, py = 0\<rparr>, \<lparr>px = 0, py = 1\<rparr>],
          poly_center = \<lparr>px = 0, py = 0\<rparr>\<rparr> \<noteq> 0"
    by (simp add: Polygon_getSignedArea_def upt_rec)
  have c: "Polygon_ctor [\<lparr>px = 0, py = 0\<rparr>, \<lparr>px = 1, py = 1\<rparr>]
     = Inl (InvalidArgument ''the count must not be less than 3'')"
    using Polygon_ctor_checks [of "[\<lparr>px = 0, py = 0\<rparr>, \<lparr>px = 1, py = 1\<rparr>]"]
    by (simp add: Polygon_ctor_def)
  from Polygon_ctor_checks [of "[\<lparr>px = 0, py = 0\<rparr>, \<lparr>px = 1, py = 1\<rparr>, \<lparr>px = 2, py = 2\<rparr>]"]
    Polygon_ctor_checks [of "[\<lparr>px = 0, py = 0\<rparr>, \<lparr>px = 1, py = 0\<rparr>, \<lparr>px = 0, py = 1\<rparr>]"]
    a b c
  show ?thesis by simp
qed

subsection \<open>Rejected scale factors\<close>

text \<open>
  Claim C2. For every collection of shapes and every pivot, \<^verbatim>\<open>scaleByPoint\<close> with
  \<open>k \<le> 0\<close> throws \<^verbatim>\<open>std::invalid_argument\<close> and leaves every shape as it was; with
  \<open>k > 0\<close> it does not throw.
\<close>

theorem scaleByPoint_rejects:
  "(k \<le> 0 \<longrightarrow>
      scaleByPoint shapes k p = (Some (InvalidArgument ''k must be positive''), shapes))
   \<and> (0 < k \<longrightarrow> (\<forall>msg. fst (scaleByPoint shapes k p) \<noteq> Some (InvalidArgument msg)))"
  by (simp add: scaleByPoint_def scaleByPoint_loop_fault)

theorem scaleByPoint_rejects_witness:
  "scaleByPoint [RectangleShape \<lparr>side_x = 5, side_y = 6, rect_center = \<lparr>px = 1, py = 2\<rparr>\<rparr>,
                 BubbleShape \<lparr>radius = 10, bubble_center = \<lparr>px = 0, py = 0\<rparr>,
                              anchor = \<lparr>px = 2, py = 2\<rparr>\<rparr>] 0 \<lparr>px = 1, py = 1\<rparr>
   = (Some (InvalidArgument ''k must be positive''),
      [RectangleShape \<lparr>side_x = 5, side_y = 6, rect_center = \<lparr>px = 1, py = 2\<rparr>\<rparr>,
       BubbleShape \<lparr>radius = 10, bubble_center = \<lparr>px = 0, py = 0\<rparr>,
                    anchor = \<lparr>px = 2, py = 2\<rparr>\<rparr>])
   \<and> fst (scaleByPoint [RectangleShape \<lparr>side_x = 5, side_y = 6, rect_center = \<lparr>px = 1, py = 2\<rparr>\<rparr>]
            2 \<lparr>px = 1, py = 1\<rparr>)
       \<noteq> Some (InvalidArgument ''k must be positive'')"
  using scaleByPoint_rejects [of 0
      "[RectangleShape \<lparr>side_x = 5, side_y = 6, rect_center = \<lparr>px = 1, py = 2\<rparr>\<rparr>,
        BubbleShape \<lparr>radius = 10, bubble_center = \<lparr>px = 0, py = 0\<rparr>,
                     anchor = \<lparr>px = 2, py = 2\<rparr>\<rparr>]" "\<lparr>px = 1, py = 1\<rparr>"]
    scaleByPoint_rejects [of 2
      "[RectangleShape \<lparr>side_x = 5, side_y = 6, rect_center = \<lparr>px = 1, py = 2\<rparr>\<rparr>]"
      "\<lparr>px = 1, py = 1\<rparr>"]
  by simp

subsection \<open>Area and frame under mutation\<close>




end
